theory Spec2Isabelle
  imports Main "HOL-Library.Sublist"
begin

section \<open>Data model\<close>

text \<open>
  The fields typed \<open>number\<close> hold integers in every record of the program. The numbers
  of the model are the safe integers (\<open>Number.isSafeInteger\<close>): the integers of magnitude
  at most \<open>2^53 - 1\<close>, each of which a \<open>number\<close> holds exactly and prints in plain
  decimal notation. Fractions, larger values, infinities and \<open>NaN\<close> are outside the model.
\<close>

typedef number = "{n :: int. - 9007199254740991 \<le> n \<and> n \<le> 9007199254740991}"
  morphisms valueOf Number
  by (rule exI [of _ 0]) simp

text \<open>
  The interfaces \<open>AddressDetails\<close> and \<open>Person\<close> of \<open>src/index.ts\<close>.
  \<open>score : number | null\<close> is a \<open>number option\<close> (\<open>None\<close> is \<open>null\<close>);
  \<open>status : string | null | undefined\<close> has its three cases apart.
\<close>

record AddressDetails =
  address :: string
  city :: string
  zipCode :: number

datatype 'a nullable = Undefined | Null | Present 'a

text \<open>A \<open>Date\<close> object holds a time value: milliseconds since 1970-01-01T00:00:00Z.\<close>

datatype Date = Date (getTime: int)

text \<open>
  The data fields of a person. The field \<open>id\<close> is written \<open>id'\<close>, since \<open>id\<close> is the
  identity function of HOL.
\<close>

record PersonFields =
  id' :: number
  name :: string
  isActive :: bool
  age :: number
  skills :: "string list"
  details :: AddressDetails
  score :: "number option"
  status :: "string nullable"
  birthdate :: Date

text \<open>
  \<open>greet\<close> is a method: a function of its receiver \<open>this\<close>, passed as the data fields of
  the object the method is called on. A method body may assign to the fields of \<open>this\<close>,
  so the method returns its result together with the receiver's fields as it leaves them.
\<close>

record Person = PersonFields +
  greet :: "PersonFields \<Rightarrow> string \<times> PersonFields"

text \<open>
  The call \<open>person.greet()\<close>: the method of \<open>person\<close>, with \<open>person\<close> as receiver.
  \<open>call_greet\<close> is the string the call returns, \<open>after_greet\<close> the object after the call.
\<close>

definition call_greet :: "Person \<Rightarrow> string" where
  "call_greet person = fst (greet person (PersonFields.truncate person))"

definition after_greet :: "Person \<Rightarrow> Person" where
  "after_greet person =
     PersonFields.extend (snd (greet person (PersonFields.truncate person)))
       (PersonFields.more person)"

section \<open>The language's values in a template literal\<close>

datatype jsval = JSUndefined | JSNull | JSString string | JSNumber number

fun statusValue :: "string nullable \<Rightarrow> jsval" where
  "statusValue Undefined = JSUndefined"
| "statusValue Null = JSNull"
| "statusValue (Present s) = JSString s"

fun scoreValue :: "number option \<Rightarrow> jsval" where
  "scoreValue None = JSNull"
| "scoreValue (Some n) = JSNumber n"

text \<open>
  \<open>a ?? b\<close>, as the compiled \<open>src/index.js\<close> spells it out:
  \<open>a !== null && a !== void 0 ? a : b\<close>.
\<close>

definition nullish_coalesce :: "jsval \<Rightarrow> jsval \<Rightarrow> jsval" where
  "nullish_coalesce a b = (if a \<noteq> JSNull \<and> a \<noteq> JSUndefined then a else b)"

text \<open>Decimal digits of a natural number, most significant first.\<close>

fun digits :: "nat \<Rightarrow> string" where
  "digits n =
     (if n < 10 then [''0123456789'' ! n]
      else digits (n div 10) @ [''0123456789'' ! (n mod 10)])"

declare digits.simps [simp del]

text \<open>An integer in decimal notation: a sign when negative, then the digits.\<close>

definition decimal :: "int \<Rightarrow> string" where
  "decimal n = (if n < 0 then ''-'' @ digits (nat (- n)) else digits (nat n))"

text \<open>\<open>Number::toString\<close>: a safe integer prints as its decimal notation.\<close>

definition NumberToString :: "number \<Rightarrow> string" where
  "NumberToString n = decimal (valueOf n)"

text \<open>\<open>ToString\<close>, which a template literal applies to each substitution.\<close>

fun ToString :: "jsval \<Rightarrow> string" where
  "ToString JSUndefined = ''undefined''"
| "ToString JSNull = ''null''"
| "ToString (JSString s) = s"
| "ToString (JSNumber n) = NumberToString n"

section \<open>Dates\<close>

definition msPerDay :: int where
  "msPerDay = 86400000"

text \<open>
  The number of days from 1970-01-01 to the day \<open>d\<close> of month \<open>m\<close> (1 to 12) of year \<open>y\<close>
  in the proleptic Gregorian calendar.
\<close>

definition days_from_civil :: "int \<Rightarrow> int \<Rightarrow> int \<Rightarrow> int" where
  "days_from_civil y m d =
     (let y1 = (if m \<le> 2 then y - 1 else y);
          era = y1 div 400;
          yoe = y1 mod 400;
          mp = (if m > 2 then m - 3 else m + 9);
          doy = (153 * mp + 2) div 5 + d - 1;
          doe = yoe * 365 + yoe div 4 - yoe div 100 + doy
      in era * 146097 + doe - 719468)"

text \<open>The inverse: year, month (1 to 12) and day of the month of a day number.\<close>

definition civil_from_days :: "int \<Rightarrow> int \<times> int \<times> int" where
  "civil_from_days z0 =
     (let z = z0 + 719468;
          era = z div 146097;
          doe = z mod 146097;
          yoe = (doe - doe div 1460 + doe div 36524 - doe div 146096) div 365;
          doy = doe - (365 * yoe + yoe div 4 - yoe div 100);
          mp = (5 * doy + 2) div 153;
          d = doy - (153 * mp + 2) div 5 + 1;
          m = (if mp < 10 then mp + 3 else mp - 9);
          y = yoe + era * 400 + (if m \<le> 2 then 1 else 0)
      in (y, m, d))"

text \<open>
  \<open>new Date("YYYY-MM-DD")\<close> for a calendar date: a date-only string is read as midnight
  UTC of that day.
\<close>

definition newDate :: "int \<Rightarrow> int \<Rightarrow> int \<Rightarrow> Date" where
  "newDate y m d = Date (days_from_civil y m d * msPerDay)"

text \<open>
  The host's time zone: the offset of local time from UTC, in milliseconds, at a UTC
  time value. The program sets no \<open>timeZone\<close> option, so the formatter uses the host's.
\<close>

type_synonym TimeZone = "int \<Rightarrow> int"

definition LocalTime :: "TimeZone \<Rightarrow> int \<Rightarrow> int" where
  "LocalTime tz t = t + tz t"

definition monthNames :: "string list" where
  "monthNames =
     [''January'', ''February'', ''March'', ''April'', ''May'', ''June'', ''July'',
      ''August'', ''September'', ''October'', ''November'', ''December'']"

text \<open>The year of the era, which the pattern letter \<open>y\<close> prints: year 0 is 1 BC.\<close>

definition yearOfEra :: "int \<Rightarrow> int" where
  "yearOfEra y = (if y \<le> 0 then 1 - y else y)"

text \<open>
  \<open>toLocaleDateString("en-GB", {day: "numeric", month: "long", year: "numeric"})\<close>:
  the pattern \<open>d MMMM y\<close> on the local date of the time value.
\<close>

definition toLocaleDateString :: "TimeZone \<Rightarrow> Date \<Rightarrow> string" where
  "toLocaleDateString tz date =
     (case civil_from_days (LocalTime tz (getTime date) div msPerDay) of
        (y, m, d) \<Rightarrow>
          decimal d @ '' '' @ monthNames ! nat (m - 1) @ '' '' @
          decimal (yearOfEra y))"

section \<open>The records of the program\<close>

definition alice :: Person where
  "alice =
     \<lparr> id' = Number 1, name = ''Alice'', isActive = True, age = Number 25,
       skills = [''JavaScript'', ''TypeScript'', ''React''],
       details = \<lparr> address = ''123 Main St'', city = ''Wonderland'', zipCode = Number 12345 \<rparr>,
       score = None, status = Undefined, birthdate = newDate 1998 5 15,
       greet = (\<lambda>this. (''Hello, I'm '' @ name this, this)) \<rparr>"

definition bob :: Person where
  "bob =
     \<lparr> id' = Number 2, name = ''Bob'', isActive = False, age = Number 30,
       skills = [''Python'', ''Django'', ''Machine Learning''],
       details = \<lparr> address = ''456 Side St'', city = ''Shire'', zipCode = Number 54321 \<rparr>,
       score = Some (Number 100), status = Null, birthdate = newDate 1993 8 20,
       greet = (\<lambda>this. (''Hello, I'm '' @ name this, this)) \<rparr>"

definition charlie :: Person where
  "charlie =
     \<lparr> id' = Number 3, name = ''Charlie'', isActive = True, age = Number 28,
       skills = [''Java'', ''Spring Boot'', ''Kotlin''],
       details = \<lparr> address = ''789 Circle Dr'', city = ''Gotham'', zipCode = Number 67890 \<rparr>,
       score = Some (Number 85), status = Undefined, birthdate = newDate 1995 2 10,
       greet = (\<lambda>this. (''Hello, I'm '' @ name this, this)) \<rparr>"

definition complexArray :: "Person list" where
  "complexArray = [alice, bob, charlie]"

section \<open>The document\<close>

text \<open>
  A node of the document is an element or a text. An element has its tag, its class
  list, the markup last assigned to \<open>innerHTML\<close> (empty when none was assigned) and its
  child nodes. \<open>Unparsed\<close> stands for the nodes of markup outside the subset of HTML the
  parser below covers: what a browser builds from such markup is not modelled.
\<close>

datatype Element =
  Element (tagName: string) (classList: "string list") (innerHTML: string)
    (childNodes: "Node list")
and Node = ElementNode Element | TextNode string | Unparsed string

text \<open>\<open>children\<close>: the child nodes that are elements.\<close>

fun elements :: "Node list \<Rightarrow> Element list" where
  "elements [] = []"
| "elements (ElementNode e # ns) = e # elements ns"
| "elements (TextNode s # ns) = elements ns"
| "elements (Unparsed s # ns) = elements ns"

definition children :: "Element \<Rightarrow> Element list" where
  "children e = elements (childNodes e)"

text \<open>\<open>textContent\<close>: the texts below a node, in document order.\<close>

primrec textContent :: "Node \<Rightarrow> string" and elementText :: "Element \<Rightarrow> string" where
  "textContent (ElementNode e) = elementText e"
| "textContent (TextNode s) = s"
| "textContent (Unparsed s) = s"
| "elementText (Element t cs h ks) = concat (map textContent ks)"

subsection \<open>Parsing the markup assigned to \<open>innerHTML\<close>\<close>

text \<open>
  The HTML fragment parser, for the markup the template can produce: start and end tags
  of \<open>h3\<close>, \<open>p\<close>, \<open>strong\<close>, \<open>ul\<close> and \<open>li\<close>, a start tag bare or with one
  \<open>class\<close> attribute, and text. The parser answers \<open>None\<close> wherever HTML's rules do
  more than open or close the element named: a character reference (\<open>&\<close>), a carriage
  return or a null character in text, any other tag or attribute, an end tag that does
  not close the current element, a start tag that would first close an open element
  (\<open>p\<close>, \<open>h3\<close>, \<open>ul\<close> or \<open>li\<close> inside an open \<open>p\<close>, \<open>h3\<close> inside \<open>h3\<close>, \<open>li\<close>
  directly inside \<open>li\<close>), an element inside \<open>strong\<close>, or an element still open at
  the end.
\<close>

datatype mode = Data | Tag

text \<open>An open element: its tag, its classes and the child nodes built so far.\<close>

type_synonym frame = "string \<times> string list \<times> Node list"

definition tagNames :: "string list" where
  "tagNames = [''h3'', ''p'', ''strong'', ''ul'', ''li'']"

definition plainChar :: "char \<Rightarrow> bool" where
  "plainChar c =
     (c \<noteq> CHR ''<'' \<and> c \<noteq> CHR ''&'' \<and> c \<noteq> CHR 0x0D \<and> c \<noteq> CHR 0x00)"

definition classChar :: "char \<Rightarrow> bool" where
  "classChar c = (c \<in> set ''abcdefghijklmnopqrstuvwxyz-'')"

definition allowed :: "string \<Rightarrow> string list \<Rightarrow> bool" where
  "allowed n opens =
     (n \<in> set tagNames \<and> ''strong'' \<notin> set opens \<and>
      (n = ''strong'' \<or> ''p'' \<notin> set opens) \<and>
      (n \<noteq> ''h3'' \<or> ''h3'' \<notin> set opens) \<and>
      (n \<noteq> ''li'' \<or> take 1 opens \<noteq> [''li'']))"

definition startTag :: "string \<Rightarrow> (string \<times> string list) option" where
  \<open>startTag s =
     (let n = takeWhile (\<lambda>c. c \<noteq> CHR '' '') s; r = dropWhile (\<lambda>c. c \<noteq> CHR '' '') s in
      if r = [] then Some (n, [])
      else if take 8 r = '' class="'' \<and> 9 < length r \<and> last r = CHR 0x22 \<and>
              list_all classChar (butlast (drop 8 r))
      then Some (n, [butlast (drop 8 r)])
      else None)\<close>

definition applyTag :: "string \<Rightarrow> frame list \<Rightarrow> frame list option" where
  "applyTag s st =
     (case s of
        [] \<Rightarrow> None
      | c # n \<Rightarrow>
          if c = CHR ''/'' then
            (case st of
               (n', cls, ks) # (m, mcls, mks) # fs \<Rightarrow>
                 if n' = n \<and> n \<in> set tagNames
                 then Some ((m, mcls, mks @ [ElementNode (Element n cls [] ks)]) # fs)
                 else None
             | _ \<Rightarrow> None)
          else
            (case startTag s of
               None \<Rightarrow> None
             | Some (n, cls) \<Rightarrow>
                 if allowed n (map fst st) then Some ((n, cls, []) # st) else None))"

text \<open>A run of text becomes one text node; an empty run becomes none.\<close>

definition textNodes :: "string \<Rightarrow> Node list" where
  "textNodes s = (if s = [] then [] else [TextNode s])"

definition addText :: "string \<Rightarrow> frame list \<Rightarrow> frame list" where
  "addText acc st =
     (case st of [] \<Rightarrow> [] | (n, cls, ks) # fs \<Rightarrow> (n, cls, ks @ textNodes acc) # fs)"

definition finish :: "frame list \<Rightarrow> Node list option" where
  "finish st = (case st of [(n, cls, ks)] \<Rightarrow> Some ks | _ \<Rightarrow> None)"

fun parse :: "mode \<Rightarrow> string \<Rightarrow> frame list \<Rightarrow> string \<Rightarrow> Node list option" where
  "parse Data acc st [] = finish (addText acc st)"
| "parse Tag acc st [] = None"
| "parse Data acc st (c # cs) =
     (if c = CHR ''<'' then parse Tag [] (addText acc st) cs
      else if plainChar c then parse Data (acc @ [c]) st cs
      else None)"
| "parse Tag acc st (c # cs) =
     (if c = CHR ''>'' then
        (case applyTag acc st of None \<Rightarrow> None | Some st' \<Rightarrow> parse Data [] st' cs)
      else if c = CHR ''<'' then None
      else parse Tag (acc @ [c]) st cs)"

definition parseFragment :: "string \<Rightarrow> Node list option" where
  "parseFragment s = parse Data [] [([], [], [])] s"

subsection \<open>The operations of the program\<close>

definition createElement :: "string \<Rightarrow> Element" where
  "createElement t = Element t [] [] []"

fun classList_add :: "string \<Rightarrow> Element \<Rightarrow> Element" where
  "classList_add c (Element t cs h ks) =
     Element t (if c \<in> set cs then cs else cs @ [c]) h ks"

text \<open>Assigning \<open>innerHTML\<close> replaces the child nodes by the nodes parsed from the markup.\<close>

fun set_innerHTML :: "string \<Rightarrow> Element \<Rightarrow> Element" where
  "set_innerHTML s (Element t cs h ks) =
     Element t cs s (case parseFragment s of Some ns \<Rightarrow> ns | None \<Rightarrow> [Unparsed s])"

fun appendChild :: "Element \<Rightarrow> Element \<Rightarrow> Element" where
  "appendChild (Element t cs h ks) child = Element t cs h (ks @ [ElementNode child])"

text \<open>The document, as far as the program reads it: the element each id names.\<close>

type_synonym Document = "string \<Rightarrow> Element option"

definition getElementById :: "Document \<Rightarrow> string \<Rightarrow> Element option" where
  "getElementById doc i = doc i"

section \<open>Rendering\<close>

text \<open>\<open>Array.prototype.join\<close>: the strings in order, the separator between neighbours.\<close>

fun join :: "string \<Rightarrow> string list \<Rightarrow> string" where
  "join sep [] = []"
| "join sep [x] = x"
| "join sep (x # y # ys) = x @ sep @ join sep (y # ys)"

text \<open>The list entries \<open>person.skills.map(skill => `<li>${skill}</li>`)\<close>.\<close>

definition skillItems :: "Person \<Rightarrow> string list" where
  "skillItems person = map (\<lambda>skill. ''<li>'' @ skill @ ''</li>'') (skills person)"

text \<open>The template literal assigned to \<open>personCard.innerHTML\<close>, line by line.\<close>

definition cardHTML :: "TimeZone \<Rightarrow> Person \<Rightarrow> string" where
  \<open>cardHTML tz person =
     (let formattedBirthdate = toLocaleDateString tz (birthdate person) in
      [CHR 0x0A] @
      ''      <h3>'' @ name person @ ''</h3>'' @ [CHR 0x0A] @
      ''      <p><strong>Age:</strong> '' @ ToString (JSNumber (age person)) @ ''</p>'' @
        [CHR 0x0A] @
      ''      <p><strong>Address:</strong> '' @ address (details person) @ '', '' @
        city (details person) @ '' '' @ ToString (JSNumber (zipCode (details person))) @
        ''</p>'' @ [CHR 0x0A] @
      ''      <p><strong>Status:</strong> '' @
        ToString (nullish_coalesce (statusValue (status person)) (JSString ''N/A'')) @
        ''</p>'' @ [CHR 0x0A] @
      ''      <p><strong>Score:</strong> '' @
        ToString (nullish_coalesce (scoreValue (score person)) (JSString ''N/A'')) @
        ''</p>'' @ [CHR 0x0A] @
      ''      <p><strong>Birthdate:</strong> '' @ formattedBirthdate @ ''</p>'' @ [CHR 0x0A] @
      ''      <p><strong>Skills:</strong></p>'' @ [CHR 0x0A] @
      ''      <ul class="skills">'' @ [CHR 0x0A] @
      ''        '' @ join [] (skillItems person) @ [CHR 0x0A] @
      ''      </ul>'' @ [CHR 0x0A] @
      ''      <p class="greet"><strong>Greet:</strong> '' @ call_greet person @ ''</p>'' @
        [CHR 0x0A] @
      ''    '')\<close>

text \<open>
  Text the parser reads as text: no \<open><\<close>, no \<open>&\<close>, no carriage return and no null
  character. A record is plain when every string the template interpolates from it is.
\<close>

definition plainText :: "string \<Rightarrow> bool" where
  "plainText s = list_all plainChar s"

definition plainRecord :: "Person \<Rightarrow> bool" where
  "plainRecord person =
     (plainText (name person) \<and> plainText (address (details person)) \<and>
      plainText (city (details person)) \<and>
      (case status person of Present s \<Rightarrow> plainText s | _ \<Rightarrow> True) \<and>
      list_all plainText (skills person) \<and> plainText (call_greet person))"

text \<open>The card of one person: the element the callback creates and fills.\<close>

definition personCard :: "TimeZone \<Rightarrow> Person \<Rightarrow> Element" where
  "personCard tz person =
     set_innerHTML (cardHTML tz person)
       (classList_add ''person-card'' (createElement ''div''))"

text \<open>The callback of \<open>forEach\<close>, as a function of the container it appends to.\<close>

definition callback :: "TimeZone \<Rightarrow> Person \<Rightarrow> Element \<Rightarrow> Element" where
  "callback tz person peopleListElement =
     appendChild peopleListElement (personCard tz person)"

primrec forEach :: "'a list \<Rightarrow> ('a \<Rightarrow> 's \<Rightarrow> 's) \<Rightarrow> 's \<Rightarrow> 's" where
  "forEach [] f s = s"
| "forEach (x # xs) f s = forEach xs f (f x s)"

text \<open>
  The guarded loop: with no container nothing runs; with one, every record is visited
  in order.
\<close>

definition render :: "TimeZone \<Rightarrow> Person list \<Rightarrow> Element option \<Rightarrow> Element option" where
  "render tz records container =
     (case container of
        None \<Rightarrow> None
      | Some peopleListElement \<Rightarrow> Some (forEach records (callback tz) peopleListElement))"

text \<open>
  The state the program can reach: its array of records and the document. The script
  looks the container up once; the loop visits the indices of the array in order and
  reads the record at each index as it is then. One visit builds the card from the
  record, leaves the record as the call of its \<open>greet\<close> left it, and appends the card
  to the container.
\<close>

record State =
  array :: "Person list"
  document :: Document

definition initial :: "Document \<Rightarrow> State" where
  "initial doc = \<lparr> array = complexArray, document = doc \<rparr>"

definition visit :: "TimeZone \<Rightarrow> nat \<Rightarrow> State \<Rightarrow> State" where
  "visit tz k st =
     (case getElementById (document st) ''people-list'' of
        None \<Rightarrow> st
      | Some peopleListElement \<Rightarrow>
          (let person = array st ! k in
           \<lparr> array = (array st)[k := after_greet person],
             document = (document st)(''people-list'' \<mapsto> callback tz person peopleListElement) \<rparr>))"

definition script :: "TimeZone \<Rightarrow> State \<Rightarrow> State" where
  "script tz st =
     (case getElementById (document st) ''people-list'' of
        None \<Rightarrow> st
      | Some peopleListElement \<Rightarrow> forEach [0..<length (array st)] (visit tz) st)"

section \<open>Evaluation lemmas\<close>

lemma digits_lt10: "n < 10 \<Longrightarrow> digits n = [''0123456789'' ! n]"
  by (simp add: digits.simps)

lemma digits_ge10: "10 \<le> n \<Longrightarrow> digits n = digits (n div 10) @ [''0123456789'' ! (n mod 10)]"
  by (subst digits.simps) simp

lemma valueOf_Number:
  "- 9007199254740991 \<le> n \<Longrightarrow> n \<le> 9007199254740991 \<Longrightarrow> valueOf (Number n) = n"
  by (simp add: Number_inverse)


lemma join_empty: "join [] xs = concat xs"
  by (induction "[] :: string" xs rule: join.induct) simp_all

lemma status_display:
  "ToString (nullish_coalesce (statusValue st) (JSString ''N/A'')) =
     (case st of Present s \<Rightarrow> s | _ \<Rightarrow> ''N/A'')"
  by (cases st) (simp_all add: nullish_coalesce_def)

lemma score_display:
  "ToString (nullish_coalesce (scoreValue sc) (JSString ''N/A'')) =
     (case sc of Some n \<Rightarrow> NumberToString n | None \<Rightarrow> ''N/A'')"
  by (cases sc) (simp_all add: nullish_coalesce_def)

section \<open>The container\<close>

lemma elements_append: "elements (ns @ ms) = elements ns @ elements ms"
  by (induction ns rule: elements.induct) simp_all

lemma children_appendChild: "children (appendChild e c) = children e @ [c]"
  by (cases e) (simp add: children_def elements_append)


lemma forEach_callback_children:
  "children (forEach records (callback tz) el) = children el @ map (personCard tz) records"
  by (induction records arbitrary: el) (simp_all add: callback_def children_appendChild)


text \<open>
  C1. Rendering any sequence of records into a present container appends as many cards
  as there are records, and the \<open>i\<close>-th appended card is the card of the \<open>i\<close>-th
  record: display order is record order.
\<close>

theorem render_fragments_in_record_order:
  "\<exists>el'. render tz records (Some el) = Some el' \<and>
     length (children el') = length (children el) + length records \<and>
     (\<forall>i < length records.
        children el' ! (length (children el) + i) = personCard tz (records ! i))"
  by (simp add: render_def forEach_callback_children nth_append)

theorem render_fragments_in_record_order_witness:
  "\<exists>el'. render (\<lambda>_. 0) complexArray (Some (createElement ''ul'')) = Some el' \<and>
     length (children el') = 3 \<and>
     children el' ! 1 = personCard (\<lambda>_. 0) bob"
proof -
  obtain el' where r: "render (\<lambda>_. 0) complexArray (Some (createElement ''ul'')) = Some el'"
    and n: "length (children el') =
      length (children (createElement ''ul'')) + length complexArray"
    and nth: "\<forall>i < length complexArray.
      children el' ! (length (children (createElement ''ul'')) + i) =
        personCard (\<lambda>_. 0) (complexArray ! i)"
    using render_fragments_in_record_order [of "\<lambda>_. 0" complexArray "createElement ''ul''"]
    by blast
  have "(1::nat) < length complexArray"
    by (simp add: complexArray_def)
  with nth have "children el' ! (length (children (createElement ''ul'')) + 1) =
      personCard (\<lambda>_. 0) (complexArray ! 1)"
    by blast
  then have "children el' ! 1 = personCard (\<lambda>_. 0) bob"
    by (simp add: createElement_def children_def complexArray_def)
  moreover from n have "length (children el') = 3"
    by (simp add: createElement_def children_def complexArray_def)
  ultimately show ?thesis
    using r by blast
qed

text \<open>
  C2. With no container, rendering does nothing: \<open>render\<close> returns no container, so
  no card is appended anywhere, and the script leaves the whole state it can reach (the
  records and the document) as it was. The script is a total function with no error
  result: there is no raise on this path.
\<close>

theorem absent_container_no_op:
  "render tz records None = None \<and>
   (getElementById (document st) ''people-list'' = None \<longrightarrow> script tz st = st)"
  by (simp add: render_def script_def)

theorem absent_container_no_op_witness:
  "getElementById (document (initial Map.empty)) ''people-list'' = None \<and>
   script (\<lambda>_. 0) (initial Map.empty) = initial Map.empty"
proof -
  have a: "getElementById (document (initial Map.empty)) ''people-list'' = None"
    by (simp add: getElementById_def initial_def)
  with absent_container_no_op [of "\<lambda>_. 0" "[]" "initial Map.empty"]
  show ?thesis by blast
qed


section \<open>The script and the records\<close>

lemma after_greet_id:
  "\<forall>this. snd (greet p this) = this \<Longrightarrow> after_greet p = p"
  by (cases p) (simp add: after_greet_def PersonFields.extend_def PersonFields.truncate_def)

lemma forEach_visit:
  assumes "\<forall>p \<in> set (array st). \<forall>this. snd (greet p this) = this"
    and "getElementById (document st) ''people-list'' = Some el"
    and "\<forall>k \<in> set ks. k < length (array st)"
  shows "forEach ks (visit tz) st =
     \<lparr> array = array st,
       document = (document st)(''people-list'' \<mapsto>
         forEach (map (\<lambda>k. array st ! k) ks) (callback tz) el) \<rparr>"
  using assms
proof (induction ks arbitrary: st el)
  case Nil
  then have "(document st)(''people-list'' \<mapsto> el) = document st"
    by (auto simp: getElementById_def)
  then show ?case by simp
next
  case (Cons k ks)
  let ?p = "array st ! k"
  let ?st = "visit tz k st"
  from Cons.prems have k: "k < length (array st)" and p: "?p \<in> set (array st)"
    by simp_all
  with Cons.prems(1) have "after_greet ?p = ?p"
    by (intro after_greet_id) blast
  then have v: "?st = \<lparr> array = array st,
      document = (document st)(''people-list'' \<mapsto> callback tz ?p el) \<rparr>"
    using Cons.prems(2) by (simp add: visit_def Let_def)
  have ih: "forEach ks (visit tz) ?st =
     \<lparr> array = array ?st,
       document = (document ?st)(''people-list'' \<mapsto>
         forEach (map (\<lambda>k. array ?st ! k) ks) (callback tz) (callback tz ?p el)) \<rparr>"
    using Cons.prems by (intro Cons.IH) (simp_all add: v getElementById_def)
  have arr: "array ?st = array st"
    by (simp add: v)
  have upd: "(document ?st)(''people-list'' \<mapsto> x) = (document st)(''people-list'' \<mapsto> x)" for x
    by (simp add: v)
  show ?case
    by (simp only: forEach.simps list.map ih arr upd)
qed

lemma script_present:
  assumes "\<forall>p \<in> set (array st). \<forall>this. snd (greet p this) = this"
    and "getElementById (document st) ''people-list'' = Some el"
  shows "script tz st =
     \<lparr> array = array st,
       document = (document st)(''people-list'' \<mapsto> forEach (array st) (callback tz) el) \<rparr>"
proof -
  have "forEach [0..<length (array st)] (visit tz) st =
     \<lparr> array = array st,
       document = (document st)(''people-list'' \<mapsto>
         forEach (map (\<lambda>k. array st ! k) [0..<length (array st)]) (callback tz) el) \<rparr>"
    using assms by (intro forEach_visit) simp_all
  then show ?thesis
    using assms(2) by (simp add: script_def map_nth)
qed

lemma complexArray_greet:
  "p \<in> set complexArray \<Longrightarrow> snd (greet p this) = this"
  by (auto simp: complexArray_def alice_def bob_def charlie_def)

text \<open>
  C8. Rendering never changes a record. The loop leaves each record as the call of its
  \<open>greet\<close> left it, and makes no other write to the array: when no record's \<open>greet\<close>
  assigns to its receiver, the array after the script is the array before it, field for
  field. The three records of the program are such records, so the array started from
  the program's literals still holds them.
\<close>

theorem records_never_mutated:
  "((\<forall>p \<in> set (array st). \<forall>this. snd (greet p this) = this) \<longrightarrow>
      array (script tz st) = array st) \<and>
   array (script tz (initial doc)) = complexArray"
proof -
  have a: "array (script tz st) = array st"
    if "\<forall>p \<in> set (array st). \<forall>this. snd (greet p this) = this" for st
  proof (cases "getElementById (document st) ''people-list''")
    case None
    then show ?thesis by (simp add: script_def)
  next
    case (Some el)
    from script_present [OF that Some] show ?thesis by simp
  qed
  have "\<forall>p \<in> set (array (initial doc)). \<forall>this. snd (greet p this) = this"
    by (simp add: initial_def complexArray_greet)
  from a [OF this] have "array (script tz (initial doc)) = complexArray"
    by (simp add: initial_def)
  with a show ?thesis by blast
qed

theorem records_never_mutated_witness:
  "array (script (\<lambda>_. 0) (initial [''people-list'' \<mapsto> createElement ''div''])) =
     [alice, bob, charlie] \<and>
   getElementById (document (initial [''people-list'' \<mapsto> createElement ''div'']))
     ''people-list'' = Some (createElement ''div'')"
proof -
  let ?st = "initial [''people-list'' \<mapsto> createElement ''div'']"
  have "\<forall>p \<in> set (array ?st). \<forall>this. snd (greet p this) = this"
    by (simp add: initial_def complexArray_greet)
  with records_never_mutated [of ?st "\<lambda>_. 0"] have "array (script (\<lambda>_. 0) ?st) = array ?st"
    by blast
  then show ?thesis
    by (simp add: initial_def complexArray_def getElementById_def)
qed

text \<open>A record whose \<open>greet\<close> assigns to a field of \<open>this\<close> is changed by the loop.\<close>

lemma script_writes_through_greet:
  "array (script tz
      \<lparr> array = [bob\<lparr>greet := (\<lambda>this. (''Hi'', this\<lparr>isActive := True\<rparr>))\<rparr>],
        document = [''people-list'' \<mapsto> createElement ''div''] \<rparr>) =
   [bob\<lparr>isActive := True, greet := (\<lambda>this. (''Hi'', this\<lparr>isActive := True\<rparr>))\<rparr>]"
  by (simp add: script_def visit_def getElementById_def after_greet_def bob_def
      PersonFields.extend_def PersonFields.truncate_def)

section \<open>The records\<close>

lemma complexArray_ids: "map (\<lambda>p. valueOf (id' p)) complexArray = [1, 2, 3]"
  by (simp add: complexArray_def alice_def bob_def charlie_def valueOf_Number)

text \<open>
  C6. The ids of the program's records are unique: records at two different positions
  of the array have different ids.
\<close>

theorem ids_unique:
  "i < length complexArray \<Longrightarrow> j < length complexArray \<Longrightarrow> i \<noteq> j \<Longrightarrow>
   id' (complexArray ! i) \<noteq> id' (complexArray ! j)"
proof -
  assume i: "i < length complexArray" and j: "j < length complexArray" and ij: "i \<noteq> j"
  let ?ids = "map (\<lambda>p. valueOf (id' p)) complexArray"
  have d: "distinct ?ids"
    by (simp add: complexArray_ids)
  from i j have "(?ids ! i = ?ids ! j) = (i = j)"
    by (intro nth_eq_iff_index_eq [OF d]) simp_all
  with i j ij have "valueOf (id' (complexArray ! i)) \<noteq> valueOf (id' (complexArray ! j))"
    by simp
  then show ?thesis by auto
qed

theorem ids_unique_witness:
  "(0::nat) < length complexArray \<and> (1::nat) < length complexArray \<and> (0::nat) \<noteq> 1 \<and>
   id' (complexArray ! 0) \<noteq> id' (complexArray ! 1)"
proof -
  have a: "(0::nat) < length complexArray" and b: "(1::nat) < length complexArray"
    by (simp_all add: complexArray_def)
  have c: "(0::nat) \<noteq> 1" by simp
  from ids_unique [OF a b c] a b c show ?thesis by blast
qed

section \<open>The calendar\<close>

text \<open>
  The day number splits into 400-year eras of 146097 days. Within an era the year is
  found by discounting the leap days passed; the lemmas below show that the year of the
  era, the day of the year, the month and the day of the month stay in range, and that
  \<open>days_from_civil\<close> takes the date of a day number back to that day number.
\<close>

lemma year_of_era:
  fixes doe :: int
  assumes "0 \<le> doe" and "doe < 146097"
  defines "yoe \<equiv> (doe - doe div 1460 + doe div 36524 - doe div 146096) div 365"
  shows "0 \<le> yoe \<and> yoe \<le> 399 \<and>
         0 \<le> doe - (365 * yoe + yoe div 4 - yoe div 100) \<and>
         doe - (365 * yoe + yoe div 4 - yoe div 100) \<le> 365"
proof (cases "doe = 146096")
  case True
  then show ?thesis
    by (simp add: yoe_def)
next
  case False
  with assms(2) have lt: "doe < 146096" by simp
  define b where "b = doe div 36524"
  define e where "e = doe mod 36524"
  define q where "q = e div 1461"
  define r where "r = e mod 1461"
  define dl where "dl = (24 * b + q + r) div 1460"
  define yc where "yc = (r - dl) div 365"
  have doe_e: "doe = 36524 * b + e"
    by (simp add: b_def e_def)
  have e_qr: "e = 1461 * q + r"
    by (simp add: q_def r_def)
  have e_range: "0 \<le> e" "e < 36524"
    by (simp_all add: e_def)
  have b_range: "0 \<le> b" "b \<le> 3"
    using assms(1) lt by (simp_all add: b_def)
  have r_range: "0 \<le> r" "r \<le> 1460"
    by (simp_all add: r_def)
  have q_range: "0 \<le> q" "q \<le> 24"
    using e_range unfolding q_def by arith+
  have q24: "q = 24 \<Longrightarrow> r \<le> 1459"
    using e_range e_qr by arith
  have doe_bqr: "doe = 36524 * b + 1461 * q + r"
    using doe_e e_qr by simp
  have dl_range: "0 \<le> dl" "dl \<le> 1"
    using b_range q_range r_range unfolding dl_def by arith+
  have dl_r: "dl \<le> r"
    using b_range q_range r_range unfolding dl_def by arith
  have dl_1460: "r = 1460 \<Longrightarrow> dl = 1"
    using b_range q_range unfolding dl_def by arith
  have a: "doe div 1460 = 25 * b + q + dl"
  proof -
    have "doe = (25 * b + q) * 1460 + (24 * b + q + r)"
      using doe_bqr by simp
    moreover have "((25 * b + q) * 1460 + (24 * b + q + r)) div 1460 =
        (25 * b + q) + (24 * b + q + r) div 1460"
      by (rule div_mult_self3) simp
    ultimately show ?thesis by (simp only: dl_def)
  qed
  have c: "doe div 146096 = 0"
    using assms(1) lt by simp
  have rd_range: "0 \<le> r - dl" "r - dl \<le> 1459"
    using dl_r r_range dl_1460 dl_range by arith+
  have yc_range: "0 \<le> yc" "yc \<le> 3"
    using rd_range unfolding yc_def by arith+
  have yoe_eq: "yoe = 100 * b + 4 * q + yc"
  proof -
    have "doe - doe div 1460 + doe div 36524 - doe div 146096 =
        doe - (25 * b + q + dl) + b - 0"
      by (simp only: a c b_def [symmetric])
    also have "\<dots> = (100 * b + 4 * q) * 365 + (r - dl)"
      using doe_bqr by simp
    finally have "doe - doe div 1460 + doe div 36524 - doe div 146096 =
        (100 * b + 4 * q) * 365 + (r - dl)" .
    moreover have "((100 * b + 4 * q) * 365 + (r - dl)) div 365 =
        (100 * b + 4 * q) + (r - dl) div 365"
      by (rule div_mult_self3) simp
    ultimately show ?thesis by (simp only: yoe_def yc_def)
  qed
  have y4: "yoe div 4 = 25 * b + q"
    using yc_range unfolding yoe_eq by arith
  have y100: "yoe div 100 = b"
    using yc_range q_range unfolding yoe_eq by arith
  have doy: "doe - (365 * yoe + yoe div 4 - yoe div 100) = r - 365 * yc"
    unfolding y4 y100 using doe_bqr yoe_eq by simp
  have "0 \<le> r - 365 * yc" "r - 365 * yc \<le> 365"
    using rd_range dl_range unfolding yc_def by arith+
  moreover have "0 \<le> yoe" "yoe \<le> 399"
    using b_range q_range yc_range unfolding yoe_eq by arith+
  ultimately show ?thesis
    unfolding doy by simp
qed

lemma month_day_range:
  fixes doy :: int
  assumes "0 \<le> doy" and "doy \<le> 365"
  defines "mp \<equiv> (5 * doy + 2) div 153"
  shows "0 \<le> mp \<and> mp \<le> 11 \<and> 1 \<le> doy - (153 * mp + 2) div 5 + 1 \<and>
         doy - (153 * mp + 2) div 5 + 1 \<le> 31"
proof -
  have mp: "0 \<le> mp" "mp \<le> 11" "153 * mp \<le> 5 * doy + 2" "5 * doy + 2 \<le> 153 * mp + 152"
    using assms(1,2) unfolding mp_def by arith+
  define k where "k = (153 * mp + 2) div 5"
  have k: "5 * k \<le> 153 * mp + 2" "153 * mp + 2 \<le> 5 * k + 4"
    unfolding k_def by arith+
  from mp k have "k \<le> doy" "doy \<le> k + 30"
    by arith+
  with mp show ?thesis
    unfolding k_def by simp
qed

lemma civil_from_days_parts:
  fixes z :: int
  defines "doe \<equiv> (z + 719468) mod 146097"
  defines "yoe \<equiv> (doe - doe div 1460 + doe div 36524 - doe div 146096) div 365"
  defines "doy \<equiv> doe - (365 * yoe + yoe div 4 - yoe div 100)"
  defines "mp \<equiv> (5 * doy + 2) div 153"
  shows "civil_from_days z =
     (yoe + (z + 719468) div 146097 * 400 +
        (if (if mp < 10 then mp + 3 else mp - 9) \<le> 2 then 1 else 0),
      if mp < 10 then mp + 3 else mp - 9,
      doy - (153 * mp + 2) div 5 + 1)"
    and "0 \<le> yoe \<and> yoe \<le> 399 \<and> 0 \<le> doy \<and> doy \<le> 365"
    and "0 \<le> mp \<and> mp \<le> 11 \<and> 1 \<le> doy - (153 * mp + 2) div 5 + 1 \<and>
         doy - (153 * mp + 2) div 5 + 1 \<le> 31"
proof -
  have doe: "0 \<le> doe" "doe < 146097"
    by (simp_all add: doe_def)
  show y: "0 \<le> yoe \<and> yoe \<le> 399 \<and> 0 \<le> doy \<and> doy \<le> 365"
    unfolding doy_def yoe_def by (rule year_of_era [OF doe])
  then have d: "0 \<le> doy" "doy \<le> 365"
    by blast+
  show "0 \<le> mp \<and> mp \<le> 11 \<and> 1 \<le> doy - (153 * mp + 2) div 5 + 1 \<and>
         doy - (153 * mp + 2) div 5 + 1 \<le> 31"
    unfolding mp_def by (rule month_day_range [OF d])
  show "civil_from_days z =
     (yoe + (z + 719468) div 146097 * 400 +
        (if (if mp < 10 then mp + 3 else mp - 9) \<le> 2 then 1 else 0),
      if mp < 10 then mp + 3 else mp - 9,
      doy - (153 * mp + 2) div 5 + 1)"
    unfolding civil_from_days_def Let_def mp_def doy_def yoe_def doe_def by (rule refl)
qed

lemma civil_from_days_cases:
  obtains era yoe doy mp where
    "z = era * 146097 + (yoe * 365 + yoe div 4 - yoe div 100 + doy) - 719468"
    and "0 \<le> yoe" and "yoe \<le> 399" and "0 \<le> mp" and "mp \<le> 11"
    and "1 \<le> doy - (153 * mp + 2) div 5 + 1" and "doy - (153 * mp + 2) div 5 + 1 \<le> 31"
    and "civil_from_days z =
      (yoe + era * 400 + (if (if mp < 10 then mp + 3 else mp - 9) \<le> 2 then 1 else 0),
       if mp < 10 then mp + 3 else mp - 9,
       doy - (153 * mp + 2) div 5 + 1)"
proof -
  define era where "era = (z + 719468) div 146097"
  define doe where "doe = (z + 719468) mod 146097"
  define yoe where "yoe = (doe - doe div 1460 + doe div 36524 - doe div 146096) div 365"
  define doy where "doy = doe - (365 * yoe + yoe div 4 - yoe div 100)"
  define mp where "mp = (5 * doy + 2) div 153"
  note parts = civil_from_days_parts [of z, folded era_def doe_def, folded yoe_def,
      folded doy_def, folded mp_def]
  have "z + 719468 = era * 146097 + doe"
    by (simp add: era_def doe_def)
  then have "z = era * 146097 + (yoe * 365 + yoe div 4 - yoe div 100 + doy) - 719468"
    by (simp add: doy_def)
  with parts show thesis
    by (intro that [of era yoe doy mp]) blast+
qed

lemma civil_from_days_range:
  assumes "civil_from_days z = (y, m, d)"
  shows "1 \<le> m \<and> m \<le> 12 \<and> 1 \<le> d \<and> d \<le> 31"
proof -
  obtain era yoe doy mp where mp: "0 \<le> mp" "mp \<le> 11"
    and d: "1 \<le> doy - (153 * mp + 2) div 5 + 1" "doy - (153 * mp + 2) div 5 + 1 \<le> 31"
    and c: "civil_from_days z =
      (yoe + era * 400 + (if (if mp < 10 then mp + 3 else mp - 9) \<le> 2 then 1 else 0),
       if mp < 10 then mp + 3 else mp - 9,
       doy - (153 * mp + 2) div 5 + 1)"
    by (rule civil_from_days_cases [of z])
  from c assms have "m = (if mp < 10 then mp + 3 else mp - 9)"
    and "d = doy - (153 * mp + 2) div 5 + 1"
    by simp_all
  with mp d show ?thesis
    by (simp split: if_splits)
qed

lemma days_from_civil_inverse:
  assumes "civil_from_days z = (y, m, d)"
  shows "days_from_civil y m d = z"
proof -
  obtain era yoe doy mp where z: "z = era * 146097 + (yoe * 365 + yoe div 4 - yoe div 100 + doy) - 719468"
    and yoe: "0 \<le> yoe" "yoe \<le> 399" and mp: "0 \<le> mp" "mp \<le> 11"
    and c: "civil_from_days z =
      (yoe + era * 400 + (if (if mp < 10 then mp + 3 else mp - 9) \<le> 2 then 1 else 0),
       if mp < 10 then mp + 3 else mp - 9,
       doy - (153 * mp + 2) div 5 + 1)"
    by (rule civil_from_days_cases [of z])
  from c assms have m: "m = (if mp < 10 then mp + 3 else mp - 9)"
    and d: "d = doy - (153 * mp + 2) div 5 + 1"
    and y: "y = yoe + era * 400 + (if m \<le> 2 then 1 else 0)"
    by simp_all
  have y1: "(if m \<le> 2 then y - 1 else y) = era * 400 + yoe"
    using y by simp
  have mp': "(if m > 2 then m - 3 else m + 9) = mp"
    using m mp by (simp split: if_splits)
  have era': "(era * 400 + yoe) div 400 = era"
    using yoe by simp
  have yoe': "(era * 400 + yoe) mod 400 = yoe"
    using yoe by simp
  have doy': "(153 * mp + 2) div 5 + d - 1 = doy"
    using d by simp
  show ?thesis
    unfolding days_from_civil_def Let_def y1 mp' era' yoe' doy' z by (rule refl)
qed

text \<open>
  Whatever the time value and the host's time zone, the formatted date is a day of the
  month, a month name of the list and a year, separated by single spaces.
\<close>

lemma toLocaleDateString_shape:
  "\<exists>d m y. 1 \<le> d \<and> d \<le> 31 \<and> m < length monthNames \<and> 1 \<le> y \<and>
     toLocaleDateString tz date =
       decimal d @ '' '' @ monthNames ! m @ '' '' @ decimal y"
proof -
  obtain y m d where c: "civil_from_days (LocalTime tz (getTime date) div msPerDay) = (y, m, d)"
    by (metis prod_cases3)
  from civil_from_days_range [OF c] have r: "1 \<le> m" "m \<le> 12" "1 \<le> d" "d \<le> 31"
    by blast+
  then have "nat (m - 1) < length monthNames"
    by (simp add: monthNames_def)
  moreover have "1 \<le> yearOfEra y"
    by (simp add: yearOfEra_def)
  moreover have "toLocaleDateString tz date =
      decimal d @ '' '' @ monthNames ! nat (m - 1) @ '' '' @ decimal (yearOfEra y)"
    by (simp add: toLocaleDateString_def c)
  ultimately show ?thesis
    using r by blast
qed

section \<open>The birthdate and the host's time zone\<close>

text \<open>
  The time value of a date-only string is midnight UTC. East of Greenwich (and at UTC)
  the local day is that day; west of it the local day is the day before.
\<close>

lemma local_day_east:
  assumes "0 \<le> tz (getTime (newDate y m d))" and "tz (getTime (newDate y m d)) < msPerDay"
  shows "LocalTime tz (getTime (newDate y m d)) div msPerDay = days_from_civil y m d"
proof -
  define k where "k = days_from_civil y m d"
  define off where "off = tz (getTime (newDate y m d))"
  have "k * msPerDay + off = msPerDay * k + off"
    by (simp only: mult.commute)
  moreover have "0 \<le> off" and "off < msPerDay"
    using assms by (simp_all only: off_def)
  ultimately have "(k * msPerDay + off) div msPerDay = k"
    by (rule int_div_pos_eq)
  then show ?thesis
    by (simp add: LocalTime_def off_def k_def newDate_def)
qed

lemma local_day_west:
  assumes "- msPerDay \<le> tz (getTime (newDate y m d))" and "tz (getTime (newDate y m d)) < 0"
  shows "LocalTime tz (getTime (newDate y m d)) div msPerDay = days_from_civil y m d - 1"
proof -
  define k where "k = days_from_civil y m d"
  define off where "off = tz (getTime (newDate y m d))"
  have "k * msPerDay + off = msPerDay * (k - 1) + (off + msPerDay)"
    by (simp add: algebra_simps)
  moreover have "0 \<le> off + msPerDay" and "off + msPerDay < msPerDay"
    using assms by (simp_all add: off_def)
  ultimately have "(k * msPerDay + off) div msPerDay = k - 1"
    by (rule int_div_pos_eq)
  then show ?thesis
    by (simp add: LocalTime_def off_def k_def newDate_def)
qed

lemma days_1998_05_15: "days_from_civil 1998 5 15 = 10361"
  by code_simp

lemma civil_10361: "civil_from_days 10361 = (1998, 5, 15)"
  by code_simp

lemma civil_10360: "civil_from_days 10360 = (1998, 5, 14)"
  by code_simp

lemma birthdate_1998_05_15_east:
  assumes "0 \<le> tz (getTime (newDate 1998 5 15))"
    and "tz (getTime (newDate 1998 5 15)) < msPerDay"
  shows "toLocaleDateString tz (newDate 1998 5 15) = ''15 May 1998''"
  unfolding toLocaleDateString_def local_day_east [of tz 1998 5 15, OF assms]
    days_1998_05_15 civil_10361
  by (simp add: monthNames_def yearOfEra_def decimal_def digits_lt10 digits_ge10)

lemma birthdate_1998_05_15_west:
  assumes "- msPerDay \<le> tz (getTime (newDate 1998 5 15))"
    and "tz (getTime (newDate 1998 5 15)) < 0"
  shows "toLocaleDateString tz (newDate 1998 5 15) = ''14 May 1998''"
  unfolding toLocaleDateString_def local_day_west [of tz 1998 5 15, OF assms]
    days_1998_05_15
  by (simp add: civil_10360 monthNames_def yearOfEra_def decimal_def digits_lt10
      digits_ge10)

lemma birthdate_1998_05_15_UTC:
  "toLocaleDateString (\<lambda>_. 0) (newDate 1998 5 15) = ''15 May 1998''"
  by (rule birthdate_1998_05_15_east) (simp_all add: msPerDay_def)

section \<open>Plain text\<close>

lemma plainText_Nil: "plainText []"
  by (simp add: plainText_def)

lemma plainText_Cons: "plainText (c # s) = (plainChar c \<and> plainText s)"
  by (simp add: plainText_def)

lemma plainText_append: "plainText (s @ t) = (plainText s \<and> plainText t)"
  by (simp add: plainText_def)

lemma plainText_digits: "plainText (digits n)"
proof (induction n rule: digits.induct)
  case (1 n)
  have d: "plainText [''0123456789'' ! k]" if "k < 10" for k :: nat
  proof -
    from that have "k \<in> {0, 1, 2, 3, 4, 5, 6, 7, 8, 9}" by auto
    then show ?thesis
      by (auto simp: plainText_def plainChar_def)
  qed
  show ?case
  proof (cases "n < 10")
    case True
    then show ?thesis by (simp add: digits_lt10 d)
  next
    case False
    with 1 show ?thesis
      by (simp add: digits_ge10 plainText_append d)
  qed
qed

lemma plainText_decimal: "plainText (decimal n)"
  by (simp add: decimal_def plainText_append plainText_digits plainText_Cons plainText_Nil
      plainChar_def)

lemma plainText_NumberToString: "plainText (NumberToString n)"
  by (simp add: NumberToString_def plainText_decimal)

lemma plainText_monthNames: "m < length monthNames \<Longrightarrow> plainText (monthNames ! m)"
proof -
  assume "m < length monthNames"
  then have "monthNames ! m \<in> set monthNames"
    by simp
  moreover have "\<forall>s \<in> set monthNames. plainText s"
    by (simp add: monthNames_def plainText_def plainChar_def)
  ultimately show ?thesis by blast
qed

lemma plainText_toLocaleDateString: "plainText (toLocaleDateString tz date)"
proof -
  obtain d m y where "m < length monthNames"
    and "toLocaleDateString tz date = decimal d @ '' '' @ monthNames ! m @ '' '' @ decimal y"
    using toLocaleDateString_shape [of tz date] by blast
  then show ?thesis
    by (simp add: plainText_append plainText_decimal plainText_monthNames plainText_Cons
        plainText_Nil plainChar_def)
qed

lemma plainText_status:
  "(case st of Present s \<Rightarrow> plainText s | _ \<Rightarrow> True) \<Longrightarrow>
   plainText (case st of Present s \<Rightarrow> s | _ \<Rightarrow> ''N/A'')"
  by (cases st) (simp_all add: plainText_def plainChar_def)

lemma plainText_score:
  "plainText (case sc of Some n \<Rightarrow> NumberToString n | None \<Rightarrow> ''N/A'')"
  by (cases sc) (simp_all add: plainText_NumberToString plainText_Cons plainText_Nil plainChar_def)

section \<open>The parser on the lines of the template\<close>

lemma parse_plain:
  "plainText t \<Longrightarrow> parse Data acc st (t @ r) = parse Data (acc @ t) st r"
  by (induction t arbitrary: acc) (simp_all add: plainText_Cons plainChar_def)

lemma textNodes_Nil: "textNodes [] = []"
  by (simp add: textNodes_def)

lemmas parse_eval = textNodes_Nil
  applyTag_def startTag_def allowed_def tagNames_def addText_def plainChar_def classChar_def

lemma parse_h3:
  "plainText x \<Longrightarrow>
   parse Data acc [([], [], ks)] (''<h3>'' @ x @ ''</h3>'' @ r) =
   parse Data [] [([], [], ks @ textNodes acc @
     [ElementNode (Element ''h3'' [] [] (textNodes x))])] r"
  by (simp add: parse_plain parse_eval)

lemma parse_p:
  "plainText l \<Longrightarrow> plainText x \<Longrightarrow>
   parse Data acc [([], [], ks)] (''<p><strong>'' @ l @ ''</strong>'' @ x @ ''</p>'' @ r) =
   parse Data [] [([], [], ks @ textNodes acc @
     [ElementNode (Element ''p'' [] []
        (ElementNode (Element ''strong'' [] [] (textNodes l)) # textNodes x))])] r"
  by (simp add: parse_plain parse_eval)

lemma parse_p_greet:
  \<open>plainText l \<Longrightarrow> plainText x \<Longrightarrow>
   parse Data acc [([], [], ks)]
     (''<p class="greet"><strong>'' @ l @ ''</strong>'' @ x @ ''</p>'' @ r) =
   parse Data [] [([], [], ks @ textNodes acc @
     [ElementNode (Element ''p'' [''greet''] []
        (ElementNode (Element ''strong'' [] [] (textNodes l)) # textNodes x))])] r\<close>
  by (simp add: parse_plain parse_eval)

lemma parse_li:
  "plainText s \<Longrightarrow>
   parse Data acc [(''ul'', cls, us), ([], [], ks)] (''<li>'' @ s @ ''</li>'' @ r) =
   parse Data [] [(''ul'', cls, us @ textNodes acc @
     [ElementNode (Element ''li'' [] [] (textNodes s))]), ([], [], ks)] r"
  by (simp add: parse_plain parse_eval)

lemma parse_items:
  "list_all plainText ss \<Longrightarrow>
   parse Data acc [(''ul'', cls, us), ([], [], ks)]
     (concat (map (\<lambda>skill. ''<li>'' @ skill @ ''</li>'') ss) @ r) =
   parse Data (if ss = [] then acc else [])
     [(''ul'', cls, us @ (if ss = [] then [] else textNodes acc) @
        map (\<lambda>s. ElementNode (Element ''li'' [] [] (textNodes s))) ss), ([], [], ks)] r"
proof (induction ss arbitrary: acc us)
  case Nil
  then show ?case by simp
next
  case (Cons s ss)
  then have s: "plainText s" and ss: "list_all plainText ss"
    by simp_all
  have "parse Data acc [(''ul'', cls, us), ([], [], ks)]
      (concat (map (\<lambda>skill. ''<li>'' @ skill @ ''</li>'') (s # ss)) @ r) =
    parse Data acc [(''ul'', cls, us), ([], [], ks)]
      (''<li>'' @ s @ ''</li>'' @
        concat (map (\<lambda>skill. ''<li>'' @ skill @ ''</li>'') ss) @ r)"
    by simp
  also have "\<dots> = parse Data [] [(''ul'', cls, us @ textNodes acc @
      [ElementNode (Element ''li'' [] [] (textNodes s))]), ([], [], ks)]
      (concat (map (\<lambda>skill. ''<li>'' @ skill @ ''</li>'') ss) @ r)"
    by (rule parse_li [OF s])
  also have "\<dots> = parse Data []
     [(''ul'', cls, (us @ textNodes acc @ [ElementNode (Element ''li'' [] [] (textNodes s))]) @
        (if ss = [] then [] else textNodes []) @
        map (\<lambda>s. ElementNode (Element ''li'' [] [] (textNodes s))) ss), ([], [], ks)] r"
    using Cons.IH [OF ss, of "[]"] by simp
  finally show ?case
    by (simp add: textNodes_Nil)
qed

lemma parse_ul:
  \<open>plainText w1 \<Longrightarrow> plainText w2 \<Longrightarrow> list_all plainText ss \<Longrightarrow>
   parse Data acc [([], [], ks)]
     (''<ul class="skills">'' @ w1 @
      concat (map (\<lambda>skill. ''<li>'' @ skill @ ''</li>'') ss) @ w2 @ ''</ul>'' @ r) =
   parse Data [] [([], [], ks @ textNodes acc @
     [ElementNode (Element ''ul'' [''skills''] []
        (if ss = [] then textNodes (w1 @ w2)
         else textNodes w1 @ map (\<lambda>s. ElementNode (Element ''li'' [] [] (textNodes s))) ss @
           textNodes w2))])] r\<close>
proof -
  assume w1: "plainText w1" and w2: "plainText w2" and ss: "list_all plainText ss"
  have \<open>parse Data acc [([], [], ks)]
     (''<ul class="skills">'' @ w1 @
      concat (map (\<lambda>skill. ''<li>'' @ skill @ ''</li>'') ss) @ w2 @ ''</ul>'' @ r) =
    parse Data w1 [(''ul'', [''skills''], []), ([], [], ks @ textNodes acc)]
      (concat (map (\<lambda>skill. ''<li>'' @ skill @ ''</li>'') ss) @ w2 @ ''</ul>'' @ r)\<close>
    using w1 by (simp add: parse_plain parse_eval)
  also have "\<dots> = parse Data (if ss = [] then w1 else [])
     [(''ul'', [''skills''], [] @ (if ss = [] then [] else textNodes w1) @
        map (\<lambda>s. ElementNode (Element ''li'' [] [] (textNodes s))) ss),
      ([], [], ks @ textNodes acc)] (w2 @ ''</ul>'' @ r)"
    by (rule parse_items [OF ss])
  also have "\<dots> = parse Data [] [([], [], ks @ textNodes acc @
     [ElementNode (Element ''ul'' [''skills''] []
        (if ss = [] then textNodes (w1 @ w2)
         else textNodes w1 @ map (\<lambda>s. ElementNode (Element ''li'' [] [] (textNodes s))) ss @
           textNodes w2))])] r"
    using w2 by (simp add: parse_plain parse_eval)
  finally show ?thesis .
qed

section \<open>The card\<close>

lemma innerHTML_personCard: "innerHTML (personCard tz p) = cardHTML tz p"
  by (simp add: personCard_def createElement_def)

lemma childNodes_personCard:
  "childNodes (personCard tz p) =
     (case parseFragment (cardHTML tz p) of Some ns \<Rightarrow> ns | None \<Rightarrow> [Unparsed (cardHTML tz p)])"
  by (simp add: personCard_def createElement_def)

text \<open>The template, grouped into the lines the parser lemmas read.\<close>

lemma cardHTML_lines:
  \<open>cardHTML tz p =
     ''\<newline>      '' @
     ''<h3>'' @ name p @ ''</h3>'' @ ''\<newline>      '' @
     ''<p><strong>'' @ ''Age:'' @ ''</strong>'' @ ('' '' @ NumberToString (age p)) @ ''</p>'' @
       ''\<newline>      '' @
     ''<p><strong>'' @ ''Address:'' @ ''</strong>'' @
       ('' '' @ address (details p) @ '', '' @ city (details p) @ '' '' @
          NumberToString (zipCode (details p))) @ ''</p>'' @ ''\<newline>      '' @
     ''<p><strong>'' @ ''Status:'' @ ''</strong>'' @
       ('' '' @ (case status p of Present s \<Rightarrow> s | _ \<Rightarrow> ''N/A'')) @ ''</p>'' @
       ''\<newline>      '' @
     ''<p><strong>'' @ ''Score:'' @ ''</strong>'' @
       ('' '' @ (case score p of Some n \<Rightarrow> NumberToString n | None \<Rightarrow> ''N/A'')) @ ''</p>'' @
       ''\<newline>      '' @
     ''<p><strong>'' @ ''Birthdate:'' @ ''</strong>'' @
       ('' '' @ toLocaleDateString tz (birthdate p)) @ ''</p>'' @ ''\<newline>      '' @
     ''<p><strong>'' @ ''Skills:'' @ ''</strong>'' @ [] @ ''</p>'' @ ''\<newline>      '' @
     ''<ul class="skills">'' @ ''\<newline>        '' @
       concat (map (\<lambda>skill. ''<li>'' @ skill @ ''</li>'') (skills p)) @ ''\<newline>      '' @
       ''</ul>'' @ ''\<newline>      '' @
     ''<p class="greet"><strong>'' @ ''Greet:'' @ ''</strong>'' @ ('' '' @ call_greet p) @
       ''</p>'' @ ''\<newline>    '' @ []\<close>
  by (simp add: cardHTML_def join_empty skillItems_def status_display score_display)

lemma textNodes_Cons: "textNodes (c # s) = [TextNode (c # s)]"
  by (simp add: textNodes_def)

lemma card_parse:
  assumes "plainRecord p"
  shows \<open>parseFragment (cardHTML tz p) = Some
     [TextNode ''\<newline>      '',
      ElementNode (Element ''h3'' [] [] (textNodes (name p))),
      TextNode ''\<newline>      '',
      ElementNode (Element ''p'' [] []
        [ElementNode (Element ''strong'' [] [] [TextNode ''Age:'']),
         TextNode ('' '' @ NumberToString (age p))]),
      TextNode ''\<newline>      '',
      ElementNode (Element ''p'' [] []
        [ElementNode (Element ''strong'' [] [] [TextNode ''Address:'']),
         TextNode ('' '' @ address (details p) @ '', '' @ city (details p) @ '' '' @
           NumberToString (zipCode (details p)))]),
      TextNode ''\<newline>      '',
      ElementNode (Element ''p'' [] []
        [ElementNode (Element ''strong'' [] [] [TextNode ''Status:'']),
         TextNode ('' '' @ (case status p of Present s \<Rightarrow> s | _ \<Rightarrow> ''N/A''))]),
      TextNode ''\<newline>      '',
      ElementNode (Element ''p'' [] []
        [ElementNode (Element ''strong'' [] [] [TextNode ''Score:'']),
         TextNode ('' '' @ (case score p of Some n \<Rightarrow> NumberToString n | None \<Rightarrow> ''N/A''))]),
      TextNode ''\<newline>      '',
      ElementNode (Element ''p'' [] []
        [ElementNode (Element ''strong'' [] [] [TextNode ''Birthdate:'']),
         TextNode ('' '' @ toLocaleDateString tz (birthdate p))]),
      TextNode ''\<newline>      '',
      ElementNode (Element ''p'' [] []
        [ElementNode (Element ''strong'' [] [] [TextNode ''Skills:''])]),
      TextNode ''\<newline>      '',
      ElementNode (Element ''ul'' [''skills''] []
        (if skills p = [] then [TextNode ''\<newline>        \<newline>      '']
         else TextNode ''\<newline>        '' #
           map (\<lambda>s. ElementNode (Element ''li'' [] [] (textNodes s))) (skills p) @
           [TextNode ''\<newline>      ''])),
      TextNode ''\<newline>      '',
      ElementNode (Element ''p'' [''greet''] []
        [ElementNode (Element ''strong'' [] [] [TextNode ''Greet:'']),
         TextNode ('' '' @ call_greet p)]),
      TextNode ''\<newline>    '']\<close>
proof -
  note pl = plainText_append plainText_Cons plainText_Nil plainChar_def
  from assms have n: "plainText (name p)" and sk: "list_all plainText (skills p)"
    and ad: "plainText ('' '' @ address (details p) @ '', '' @ city (details p) @ '' '' @
           NumberToString (zipCode (details p)))"
    and st: "plainText ('' '' @ (case status p of Present s \<Rightarrow> s | _ \<Rightarrow> ''N/A''))"
    and gr: "plainText ('' '' @ call_greet p)"
    by (simp_all add: plainRecord_def pl plainText_NumberToString plainText_status)
  have ag: "plainText ('' '' @ NumberToString (age p))"
    and sc: "plainText ('' '' @ (case score p of Some n \<Rightarrow> NumberToString n | None \<Rightarrow> ''N/A''))"
    and bd: "plainText ('' '' @ toLocaleDateString tz (birthdate p))"
    by (simp_all add: pl plainText_NumberToString plainText_score plainText_toLocaleDateString)
  have lit: "plainText ''\<newline>      ''" "plainText ''\<newline>        ''" "plainText ''\<newline>    ''"
    "plainText ''Age:''" "plainText ''Address:''" "plainText ''Status:''" "plainText ''Score:''"
    "plainText ''Birthdate:''" "plainText ''Skills:''" "plainText ''Greet:''" "plainText []"
    by (simp_all add: pl)
  have "parseFragment (cardHTML tz p) = parse Data [] [([], [], [])] (cardHTML tz p)"
    by (simp only: parseFragment_def)
  also have "\<dots> = finish (addText ([] @ ''\<newline>    '') [([], [],
      ((((((((([] @ textNodes ([] @ ''\<newline>      '') @
        [ElementNode (Element ''h3'' [] [] (textNodes (name p)))]) @
        textNodes ([] @ ''\<newline>      '') @
        [ElementNode (Element ''p'' [] []
          (ElementNode (Element ''strong'' [] [] (textNodes ''Age:'')) #
           textNodes ('' '' @ NumberToString (age p))))]) @
        textNodes ([] @ ''\<newline>      '') @
        [ElementNode (Element ''p'' [] []
          (ElementNode (Element ''strong'' [] [] (textNodes ''Address:'')) #
           textNodes ('' '' @ address (details p) @ '', '' @ city (details p) @ '' '' @
             NumberToString (zipCode (details p)))))]) @
        textNodes ([] @ ''\<newline>      '') @
        [ElementNode (Element ''p'' [] []
          (ElementNode (Element ''strong'' [] [] (textNodes ''Status:'')) #
           textNodes ('' '' @ (case status p of Present s \<Rightarrow> s | _ \<Rightarrow> ''N/A''))))]) @
        textNodes ([] @ ''\<newline>      '') @
        [ElementNode (Element ''p'' [] []
          (ElementNode (Element ''strong'' [] [] (textNodes ''Score:'')) #
           textNodes ('' '' @
             (case score p of Some n \<Rightarrow> NumberToString n | None \<Rightarrow> ''N/A''))))]) @
        textNodes ([] @ ''\<newline>      '') @
        [ElementNode (Element ''p'' [] []
          (ElementNode (Element ''strong'' [] [] (textNodes ''Birthdate:'')) #
           textNodes ('' '' @ toLocaleDateString tz (birthdate p))))]) @
        textNodes ([] @ ''\<newline>      '') @
        [ElementNode (Element ''p'' [] []
          (ElementNode (Element ''strong'' [] [] (textNodes ''Skills:'')) # textNodes []))]) @
        textNodes ([] @ ''\<newline>      '') @
        [ElementNode (Element ''ul'' [''skills''] []
          (if skills p = [] then textNodes (''\<newline>        '' @ ''\<newline>      '')
           else textNodes ''\<newline>        '' @
             map (\<lambda>s. ElementNode (Element ''li'' [] [] (textNodes s))) (skills p) @
             textNodes ''\<newline>      ''))]) @
        textNodes ([] @ ''\<newline>      '') @
        [ElementNode (Element ''p'' [''greet''] []
          (ElementNode (Element ''strong'' [] [] (textNodes ''Greet:'')) #
           textNodes ('' '' @ call_greet p)))]))])"
    by (simp only: cardHTML_lines parse_plain parse_h3 parse_p parse_p_greet parse_ul
        parse.simps n sk ad st gr ag sc bd lit)
  also have "\<dots> = Some
     [TextNode ''\<newline>      '',
      ElementNode (Element ''h3'' [] [] (textNodes (name p))),
      TextNode ''\<newline>      '',
      ElementNode (Element ''p'' [] []
        [ElementNode (Element ''strong'' [] [] [TextNode ''Age:'']),
         TextNode ('' '' @ NumberToString (age p))]),
      TextNode ''\<newline>      '',
      ElementNode (Element ''p'' [] []
        [ElementNode (Element ''strong'' [] [] [TextNode ''Address:'']),
         TextNode ('' '' @ address (details p) @ '', '' @ city (details p) @ '' '' @
           NumberToString (zipCode (details p)))]),
      TextNode ''\<newline>      '',
      ElementNode (Element ''p'' [] []
        [ElementNode (Element ''strong'' [] [] [TextNode ''Status:'']),
         TextNode ('' '' @ (case status p of Present s \<Rightarrow> s | _ \<Rightarrow> ''N/A''))]),
      TextNode ''\<newline>      '',
      ElementNode (Element ''p'' [] []
        [ElementNode (Element ''strong'' [] [] [TextNode ''Score:'']),
         TextNode ('' '' @ (case score p of Some n \<Rightarrow> NumberToString n | None \<Rightarrow> ''N/A''))]),
      TextNode ''\<newline>      '',
      ElementNode (Element ''p'' [] []
        [ElementNode (Element ''strong'' [] [] [TextNode ''Birthdate:'']),
         TextNode ('' '' @ toLocaleDateString tz (birthdate p))]),
      TextNode ''\<newline>      '',
      ElementNode (Element ''p'' [] []
        [ElementNode (Element ''strong'' [] [] [TextNode ''Skills:''])]),
      TextNode ''\<newline>      '',
      ElementNode (Element ''ul'' [''skills''] []
        (if skills p = [] then [TextNode ''\<newline>        \<newline>      '']
         else TextNode ''\<newline>        '' #
           map (\<lambda>s. ElementNode (Element ''li'' [] [] (textNodes s))) (skills p) @
           [TextNode ''\<newline>      ''])),
      TextNode ''\<newline>      '',
      ElementNode (Element ''p'' [''greet''] []
        [ElementNode (Element ''strong'' [] [] [TextNode ''Greet:'']),
         TextNode ('' '' @ call_greet p)]),
      TextNode ''\<newline>    '']"
    by (simp add: finish_def addText_def textNodes_Cons textNodes_Nil)
  finally show ?thesis .
qed

lemma elementText_textNodes: "concat (map textContent (textNodes s)) = s"
  by (simp add: textNodes_def)

lemma elements_items:
  "elements (map (\<lambda>s. ElementNode (f s)) ss @ ns) = map f ss @ elements ns"
  by (induction ss) simp_all

lemma card_children:
  assumes "plainRecord p"
  shows \<open>children (personCard tz p) =
     [Element ''h3'' [] [] (textNodes (name p)),
      Element ''p'' [] []
        [ElementNode (Element ''strong'' [] [] [TextNode ''Age:'']),
         TextNode ('' '' @ NumberToString (age p))],
      Element ''p'' [] []
        [ElementNode (Element ''strong'' [] [] [TextNode ''Address:'']),
         TextNode ('' '' @ address (details p) @ '', '' @ city (details p) @ '' '' @
           NumberToString (zipCode (details p)))],
      Element ''p'' [] []
        [ElementNode (Element ''strong'' [] [] [TextNode ''Status:'']),
         TextNode ('' '' @ (case status p of Present s \<Rightarrow> s | _ \<Rightarrow> ''N/A''))],
      Element ''p'' [] []
        [ElementNode (Element ''strong'' [] [] [TextNode ''Score:'']),
         TextNode ('' '' @ (case score p of Some n \<Rightarrow> NumberToString n | None \<Rightarrow> ''N/A''))],
      Element ''p'' [] []
        [ElementNode (Element ''strong'' [] [] [TextNode ''Birthdate:'']),
         TextNode ('' '' @ toLocaleDateString tz (birthdate p))],
      Element ''p'' [] []
        [ElementNode (Element ''strong'' [] [] [TextNode ''Skills:''])],
      Element ''ul'' [''skills''] []
        (if skills p = [] then [TextNode ''\<newline>        \<newline>      '']
         else TextNode ''\<newline>        '' #
           map (\<lambda>s. ElementNode (Element ''li'' [] [] (textNodes s))) (skills p) @
           [TextNode ''\<newline>      '']),
      Element ''p'' [''greet''] []
        [ElementNode (Element ''strong'' [] [] [TextNode ''Greet:'']),
         TextNode ('' '' @ call_greet p)]]\<close>
  by (simp add: children_def childNodes_personCard card_parse [OF assms])



lemma card_skill_entries:
  assumes "plainRecord p"
  shows "tagName (children (personCard tz p) ! 7) = ''ul'' \<and>
   classList (children (personCard tz p) ! 7) = [''skills''] \<and>
   map elementText (children (children (personCard tz p) ! 7)) = skills p"
proof -
  have c: \<open>children (personCard tz p) ! 7 =
      Element ''ul'' [''skills''] []
        (if skills p = [] then [TextNode ''\<newline>        \<newline>      '']
         else TextNode ''\<newline>        '' #
           map (\<lambda>s. ElementNode (Element ''li'' [] [] (textNodes s))) (skills p) @
           [TextNode ''\<newline>      ''])\<close>
    by (simp add: card_children [OF assms])
  show ?thesis
    unfolding c
    by (simp add: children_def elements_items comp_def elementText_textNodes)
qed

lemmas card_eval =
  children_def childNodes_personCard parseFragment_def cardHTML_def alice_def
  birthdate_1998_05_15_UTC join_empty skillItems_def call_greet_def PersonFields.truncate_def
  nullish_coalesce_def NumberToString_def valueOf_Number decimal_def digits_lt10 digits_ge10
  parse_eval finish_def textNodes_def


lemma skill_markup_card:
  "map elementText (children (children (personCard (\<lambda>_. 0)
      (alice\<lparr>skills := [''a</li><li>b'']\<rparr>)) ! 7)) = [''a'', ''b'']"
  by (simp add: card_eval)

section \<open>The lines of the markup\<close>

lemma sublist_here: "sublist xs (xs @ ss)"
  by (rule sublist_append_rightI)

lemma sublist_skip: "sublist xs zs \<Longrightarrow> sublist xs (ys @ zs)"
  by (metis sublist_append_leftI sublist_order.order_trans)

text \<open>The template with its indentation split off each line.\<close>

lemma cardHTML_segments:
  \<open>cardHTML tz p =
     [CHR 0x0A] @ ''      '' @
     (''<h3>'' @ name p @ ''</h3>'') @ [CHR 0x0A] @ ''      '' @
     (''<p><strong>Age:</strong> '' @ NumberToString (age p) @ ''</p>'') @
       [CHR 0x0A] @ ''      '' @
     (''<p><strong>Address:</strong> '' @ address (details p) @ '', '' @ city (details p) @
       '' '' @ NumberToString (zipCode (details p)) @ ''</p>'') @ [CHR 0x0A] @ ''      '' @
     (''<p><strong>Status:</strong> '' @
       ToString (nullish_coalesce (statusValue (status p)) (JSString ''N/A'')) @ ''</p>'') @
       [CHR 0x0A] @ ''      '' @
     (''<p><strong>Score:</strong> '' @
       ToString (nullish_coalesce (scoreValue (score p)) (JSString ''N/A'')) @ ''</p>'') @
       [CHR 0x0A] @ ''      '' @
     (''<p><strong>Birthdate:</strong> '' @ toLocaleDateString tz (birthdate p) @ ''</p>'') @
       [CHR 0x0A] @ ''      '' @
     ''<p><strong>Skills:</strong></p>'' @ [CHR 0x0A] @ ''      '' @
     (''<ul class="skills">'' @ [CHR 0x0A] @ ''        '' @ concat (skillItems p) @
       [CHR 0x0A] @ ''      </ul>'') @ [CHR 0x0A] @ ''      '' @
     (''<p class="greet"><strong>Greet:</strong> '' @ call_greet p @ ''</p>'') @
       [CHR 0x0A] @ ''    ''\<close>
  by (simp add: cardHTML_def join_empty)


lemma cardHTML_score:
  "sublist (''<p><strong>Score:</strong> '' @
      ToString (nullish_coalesce (scoreValue (score p)) (JSString ''N/A'')) @ ''</p>'')
     (cardHTML tz p)"
  by (subst cardHTML_segments) (rule sublist_here | rule sublist_skip)+

lemma cardHTML_birthdate:
  "sublist (''<p><strong>Birthdate:</strong> '' @ toLocaleDateString tz (birthdate p) @ ''</p>'')
     (cardHTML tz p)"
  by (subst cardHTML_segments) (rule sublist_here | rule sublist_skip)+

lemma cardHTML_skills:
  \<open>sublist (''<ul class="skills">'' @ [CHR 0x0A] @ ''        '' @ concat (skillItems p) @
      [CHR 0x0A] @ ''      </ul>'')
     (cardHTML tz p)\<close>
  by (subst cardHTML_segments) (rule sublist_here | rule sublist_skip)+

lemma cardHTML_greet:
  \<open>sublist (''<p class="greet"><strong>Greet:</strong> '' @ call_greet p @ ''</p>'')
     (cardHTML tz p)\<close>
  by (subst cardHTML_segments) (rule sublist_here | rule sublist_skip)+


lemma card_score:
  "sublist (''<p><strong>Score:</strong> '' @
       (case score p of Some n \<Rightarrow> NumberToString n | None \<Rightarrow> ''N/A'') @ ''</p>'')
     (innerHTML (personCard tz p))"
  using cardHTML_score [of p tz] by (simp only: innerHTML_personCard score_display)

text \<open>The whole card of Bob, on a host whose time zone is UTC.\<close>

lemma bob_birthdate_UTC: "toLocaleDateString (\<lambda>_. 0) (newDate 1993 8 20) = ''20 August 1993''"
  by code_simp

lemma bob_card_UTC:
  \<open>cardHTML (\<lambda>_. 0) bob =
     ''\<newline>      <h3>Bob</h3>\<newline>      <p><strong>Age:</strong> 30</p>\<newline>      <p><strong>Address:</strong> 456 Side St, Shire 54321</p>\<newline>      <p><strong>Status:</strong> N/A</p>\<newline>      <p><strong>Score:</strong> 100</p>\<newline>      <p><strong>Birthdate:</strong> 20 August 1993</p>\<newline>      <p><strong>Skills:</strong></p>\<newline>      <ul class="skills">\<newline>        <li>Python</li><li>Django</li><li>Machine Learning</li>\<newline>      </ul>\<newline>      <p class="greet"><strong>Greet:</strong> Hello, I'm Bob</p>\<newline>    ''\<close>
  by (simp add: cardHTML_def bob_def bob_birthdate_UTC join_empty skillItems_def call_greet_def
      PersonFields.truncate_def nullish_coalesce_def NumberToString_def valueOf_Number decimal_def digits_lt10
      digits_ge10)

lemma plainRecord_alice: "plainRecord alice"
  by (simp add: plainRecord_def plainText_def plainChar_def alice_def call_greet_def
      PersonFields.truncate_def)






text \<open>
  C5. The markup of a card holds one \<open><li>\<close> entry per skill of the record, in the
  record's order (entry \<open>i\<close> wraps skill \<open>i\<close>), one after another inside the list.
  When the record is plain, the rendered list has exactly one entry per skill: the
  eighth child element of the card is the \<open>ul\<close> of class \<open>skills\<close>, and the texts of
  its child elements are the record's skills, in order. A skill that holds markup can
  render as more entries than one.
\<close>

theorem skills_one_entry_each:
  \<open>length (skillItems p) = length (skills p) \<and>
   (\<forall>i < length (skills p). skillItems p ! i = ''<li>'' @ skills p ! i @ ''</li>'') \<and>
   innerHTML (personCard tz p) =
     ''\<newline>      <h3>'' @ name p @ ''</h3>\<newline>      <p><strong>Age:</strong> '' @
     NumberToString (age p) @ ''</p>\<newline>      <p><strong>Address:</strong> '' @
     address (details p) @ '', '' @ city (details p) @ '' '' @
     NumberToString (zipCode (details p)) @ ''</p>\<newline>      <p><strong>Status:</strong> '' @
     (case status p of Present s \<Rightarrow> s | _ \<Rightarrow> ''N/A'') @
     ''</p>\<newline>      <p><strong>Score:</strong> '' @
     (case score p of Some n \<Rightarrow> NumberToString n | None \<Rightarrow> ''N/A'') @
     ''</p>\<newline>      <p><strong>Birthdate:</strong> '' @ toLocaleDateString tz (birthdate p) @
     ''</p>\<newline>      <p><strong>Skills:</strong></p>\<newline>      <ul class="skills">\<newline>        '' @
     concat (skillItems p) @
     ''\<newline>      </ul>\<newline>      <p class="greet"><strong>Greet:</strong> '' @
     call_greet p @ ''</p>\<newline>    '' \<and>
   (plainRecord p \<longrightarrow>
      tagName (children (personCard tz p) ! 7) = ''ul'' \<and>
      classList (children (personCard tz p) ! 7) = [''skills''] \<and>
      map elementText (children (children (personCard tz p) ! 7)) = skills p)\<close>
proof -
  have \<open>innerHTML (personCard tz p) =
     ''\<newline>      <h3>'' @ name p @ ''</h3>\<newline>      <p><strong>Age:</strong> '' @
     NumberToString (age p) @ ''</p>\<newline>      <p><strong>Address:</strong> '' @
     address (details p) @ '', '' @ city (details p) @ '' '' @
     NumberToString (zipCode (details p)) @ ''</p>\<newline>      <p><strong>Status:</strong> '' @
     (case status p of Present s \<Rightarrow> s | _ \<Rightarrow> ''N/A'') @
     ''</p>\<newline>      <p><strong>Score:</strong> '' @
     (case score p of Some n \<Rightarrow> NumberToString n | None \<Rightarrow> ''N/A'') @
     ''</p>\<newline>      <p><strong>Birthdate:</strong> '' @ toLocaleDateString tz (birthdate p) @
     ''</p>\<newline>      <p><strong>Skills:</strong></p>\<newline>      <ul class="skills">\<newline>        '' @
     concat (skillItems p) @
     ''\<newline>      </ul>\<newline>      <p class="greet"><strong>Greet:</strong> '' @
     call_greet p @ ''</p>\<newline>    ''\<close>
    by (simp add: innerHTML_personCard cardHTML_def join_empty status_display score_display)
  moreover have "length (skillItems p) = length (skills p)"
    and "\<forall>i < length (skills p). skillItems p ! i = ''<li>'' @ skills p ! i @ ''</li>''"
    by (simp_all add: skillItems_def)
  ultimately show ?thesis
    using card_skill_entries [of p tz] by blast
qed

theorem skills_one_entry_each_witness:
  "map elementText (children (children (personCard (\<lambda>_. 0) alice) ! 7)) =
     [''JavaScript'', ''TypeScript'', ''React''] \<and>
   skillItems alice ! 1 = ''<li>TypeScript</li>''"
proof -
  have i: "(1::nat) < length (skills alice)"
    by (simp add: alice_def)
  from skills_one_entry_each [of alice "\<lambda>_. 0"] plainRecord_alice
  have "map elementText (children (children (personCard (\<lambda>_. 0) alice) ! 7)) = skills alice"
    and "\<forall>i < length (skills alice). skillItems alice ! i = ''<li>'' @ skills alice ! i @ ''</li>''"
    by blast+
  with i have "map elementText (children (children (personCard (\<lambda>_. 0) alice) ! 7)) =
      skills alice"
    and "skillItems alice ! 1 = ''<li>'' @ skills alice ! 1 @ ''</li>''"
    by blast+
  then show ?thesis
    by (simp add: alice_def)
qed

theorem skills_one_entry_each_counterexample:
  "skills (alice\<lparr>skills := [''a</li><li>b'']\<rparr>) = [''a</li><li>b''] \<and>
   map elementText (children (children (personCard (\<lambda>_. 0)
      (alice\<lparr>skills := [''a</li><li>b'']\<rparr>)) ! 7)) = [''a'', ''b''] \<and>
   length (children (children (personCard (\<lambda>_. 0)
      (alice\<lparr>skills := [''a</li><li>b'']\<rparr>)) ! 7)) \<noteq>
     length (skills (alice\<lparr>skills := [''a</li><li>b'']\<rparr>))"
proof -
  let ?ul = "children (personCard (\<lambda>_. 0) (alice\<lparr>skills := [''a</li><li>b'']\<rparr>)) ! 7"
  have m: "map elementText (children ?ul) = [''a'', ''b'']"
    by (rule skill_markup_card)
  have "length (map elementText (children ?ul)) = 2"
    by (simp only: m) simp
  then have "length (children ?ul) = 2"
    by simp
  with m show ?thesis
    by simp
qed

text \<open>
  C7. For each record of the program, \<open>greet\<close> is a function of the name alone: called
  on the record it returns \<open>Hello, I'm\<close> and the record's name, two receivers with the
  same name get the same string, the call leaves its receiver as it was, and the card
  shows that string.
\<close>

theorem greet_function_of_name:
  \<open>p \<in> set complexArray \<Longrightarrow>
   call_greet p = ''Hello, I'm '' @ name p \<and>
   (\<forall>this this'. name this = name this' \<longrightarrow> fst (greet p this) = fst (greet p this')) \<and>
   (\<forall>this. snd (greet p this) = this) \<and>
   sublist (''<p class="greet"><strong>Greet:</strong> Hello, I'm '' @ name p @ ''</p>'')
     (innerHTML (personCard tz p))\<close>
proof -
  assume m: "p \<in> set complexArray"
  then have g: "call_greet p = ''Hello, I'm '' @ name p"
    by (auto simp: complexArray_def alice_def bob_def charlie_def call_greet_def
        PersonFields.truncate_def)
  from m have "\<forall>this this'. name this = name this' \<longrightarrow> fst (greet p this) = fst (greet p this')"
    by (auto simp: complexArray_def alice_def bob_def charlie_def)
  moreover from m have "\<forall>this. snd (greet p this) = this"
    by (simp add: complexArray_greet)
  moreover
  have \<open>sublist (''<p class="greet"><strong>Greet:</strong> Hello, I'm '' @ name p @ ''</p>'')
     (innerHTML (personCard tz p))\<close>
    using cardHTML_greet [of p tz] by (simp add: innerHTML_personCard g)
  ultimately show ?thesis
    using g by blast
qed

theorem greet_function_of_name_witness:
  "bob \<in> set complexArray \<and> call_greet bob = ''Hello, I'm Bob''"
proof -
  have m: "bob \<in> set complexArray"
    by (simp add: complexArray_def)
  from greet_function_of_name [OF m] have "call_greet bob = ''Hello, I'm '' @ name bob"
    by blast
  with m show ?thesis
    by (simp add: bob_def)
qed

text \<open>
  C4. The birthdate is printed as day, month name and year of the host's local date.
  Alice's birthdate is \<open>new Date("1998-05-15")\<close>; on a host four hours west of UTC
  (New York in May 1998) the card shows \<open>14 May 1998\<close>, not \<open>15 May 1998\<close>.
\<close>

theorem birthdate_west_of_UTC:
  "birthdate alice = newDate 1998 5 15 \<and>
   toLocaleDateString (\<lambda>_. - 14400000) (birthdate alice) = ''14 May 1998'' \<and>
   sublist ''<p><strong>Birthdate:</strong> 14 May 1998</p>''
     (innerHTML (personCard (\<lambda>_. - 14400000) alice))"
proof -
  have b: "birthdate alice = newDate 1998 5 15"
    by (simp add: alice_def)
  have "toLocaleDateString (\<lambda>_. - 14400000) (newDate 1998 5 15) = ''14 May 1998''"
    by (rule birthdate_1998_05_15_west) (simp_all add: msPerDay_def)
  with b have f: "toLocaleDateString (\<lambda>_. - 14400000) (birthdate alice) = ''14 May 1998''"
    by simp
  have "sublist ''<p><strong>Birthdate:</strong> 14 May 1998</p>''
     (innerHTML (personCard (\<lambda>_. - 14400000) alice))"
    using cardHTML_birthdate [of "\<lambda>_. - 14400000" alice]
    by (simp add: innerHTML_personCard f)
  with b f show ?thesis by blast
qed

end
